theory Spec2Isabelle
  imports Complex_Main "HOL-Library.AList" "HOL-Library.Sublist"
begin

section \<open>Wallet analysis of \<^verbatim>\<open>CryptoTransactionAnalyzer\<close> (Code.py)\<close>

text \<open>
  The analyser works on a pandas DataFrame of transactions. A frame is modelled as the
  list of its rows, in index order, each row carrying the five columns the loader
  produces. Amounts are Python floats in the program; here they are exact rationals, so
  sums and quotients are the mathematical ones (no rounding, no NaN, no infinity).

  The \<^verbatim>\<open>timestamp\<close> column holds ISO-8601 text when the frame comes from JSON and
  pandas Timestamps once \<^verbatim>\<open>pd.to_datetime\<close> has been applied to it. A Timestamp is
  modelled by its integer count of nanoseconds since the epoch. The text parser of pandas
  is not part of this repository: it is the parameter \<open>parse\<close> of the functions below,
  \<open>None\<close> standing for the exception it raises on text it cannot read.
\<close>

subsection \<open>Data\<close>

datatype ts_cell = Text string | Stamp int

record transaction =
  timestamp :: ts_cell
  from_address :: string
  to_address :: string
  amount :: rat
  transaction_hash :: string

type_synonym dataframe = "transaction list"

text \<open>The dictionary \<^verbatim>\<open>self.risk_indicators\<close> set up by \<^verbatim>\<open>__init__\<close>.\<close>

record suspicious_patterns_cfg =
  structuring :: int
  velocity :: int
  round_amounts :: bool

record risk_indicators_cfg =
  mixing_service :: "string list"
  high_risk_jurisdictions :: "string list"
  suspicious_patterns :: suspicious_patterns_cfg

definition init :: risk_indicators_cfg where
  "init =
     \<lparr>mixing_service = [''tornado.cash'', ''wasabi'', ''samourai''],
      high_risk_jurisdictions = [''sanctioned-country-1'', ''sanctioned-country-2''],
      suspicious_patterns = \<lparr>structuring = 9999, velocity = 5, round_amounts = True\<rparr>\<rparr>"

text \<open>The dictionaries the analysis returns.\<close>

record velocity_metrics =
  hourly_avg :: rat
  daily_avg :: rat

record counterparty_volume =
  address :: string
  volume :: rat

record counterparty_analysis =
  unique_counterparties :: nat
  top_counterparties :: "counterparty_volume list"

record wallet_analysis =
  address :: string
  total_transactions :: nat
  total_volume :: rat
  risk_indicators :: "string list"
  transaction_velocity :: velocity_metrics
  counterparties :: counterparty_analysis

datatype error = ParseError

subsection \<open>Frame primitives used by the analyser\<close>

text \<open>\<^verbatim>\<open>column == value\<close>: the element-wise comparison, a Boolean column.\<close>

definition col_eq :: "string list \<Rightarrow> string \<Rightarrow> bool list" where
  "col_eq col v = map (\<lambda>x. x = v) col"

text \<open>\<^verbatim>\<open>mask1 | mask2\<close>: the element-wise disjunction of two Boolean columns.\<close>

definition mask_or :: "bool list \<Rightarrow> bool list \<Rightarrow> bool list" where
  "mask_or m1 m2 = map (\<lambda>(a, b). a \<or> b) (zip m1 m2)"

text \<open>\<^verbatim>\<open>frame[mask]\<close>: the rows whose mask entry is true, in index order.\<close>

definition mask_select :: "'a list \<Rightarrow> bool list \<Rightarrow> 'a list" where
  "mask_select rows m = map fst (filter snd (zip rows m))"

text \<open>\<^verbatim>\<open>Series.unique()\<close>: the distinct values in order of first appearance.\<close>

definition unique :: "'a list \<Rightarrow> 'a list" where
  "unique xs = rev (remdups (rev xs))"

text \<open>\<^verbatim>\<open>sorted(xs, key=key, reverse=True)\<close>: Python reverses, sorts stably, reverses.\<close>

definition sorted_reverse :: "('a \<Rightarrow> 'k::linorder) \<Rightarrow> 'a list \<Rightarrow> 'a list" where
  "sorted_reverse key xs = rev (sort_key key (rev xs))"

text \<open>\<^verbatim>\<open>xs[:n]\<close>: a negative bound counts from the end.\<close>

definition slice_to :: "int \<Rightarrow> 'a list \<Rightarrow> 'a list" where
  "slice_to n xs = (if 0 \<le> n then take (nat n) xs else take (length xs - nat (- n)) xs)"

text \<open>\<^verbatim>\<open>x.is_integer()\<close> on a float.\<close>

definition is_integer :: "rat \<Rightarrow> bool" where
  "is_integer x = (of_int \<lfloor>x\<rfloor> = x)"

subsection \<open>Selecting a wallet's rows (\<^verbatim>\<open>analyze_wallet\<close>, lines 26-29)\<close>

definition wallet_txs :: "string \<Rightarrow> dataframe \<Rightarrow> dataframe" where
  "wallet_txs addr transactions =
     mask_select transactions
       (mask_or (col_eq (map from_address transactions) addr)
                (col_eq (map to_address transactions) addr))"


subsection \<open>Risk indicators (\<^verbatim>\<open>check_risk_indicators\<close>)\<close>

text \<open>The loop over the configured mixers, \<open>risks\<close> being the list built so far.\<close>

fun check_mixers :: "string list \<Rightarrow> string list \<Rightarrow> string list \<Rightarrow> string list" where
  "check_mixers [] to_values risks = risks"
| "check_mixers (mixer # rest) to_values risks =
     check_mixers rest to_values
       (if mixer \<in> set to_values
        then risks @ [''Interaction with mixing service: '' @ mixer]
        else risks)"

definition check_risk_indicators :: "risk_indicators_cfg \<Rightarrow> dataframe \<Rightarrow> string list" where
  "check_risk_indicators self transactions =
     (let risks0 = check_mixers (mixing_service self) (map to_address transactions) [];
          amounts = map amount transactions;
          risks1 = (if list_ex (\<lambda>x. 9900 < x \<and> x < 10000) amounts
                    then risks0 @ [''Potential structuring detected'']
                    else risks0)
      in if round_amounts (suspicious_patterns self)
         then (if list_ex is_integer amounts
               then risks1 @ [''Multiple round-number transactions'']
               else risks1)
         else risks1)"

subsection \<open>Velocity (\<^verbatim>\<open>calculate_velocity\<close>)\<close>

text \<open>
  \<^verbatim>\<open>pd.to_datetime\<close> on one cell: text goes through the parser, a Timestamp is kept.
  On a column it converts every cell, and raises when one cell cannot be read.
\<close>

fun to_datetime_cell :: "(string \<Rightarrow> int option) \<Rightarrow> ts_cell \<Rightarrow> int option" where
  "to_datetime_cell parse (Text s) = parse s"
| "to_datetime_cell parse (Stamp n) = Some n"

fun to_datetime :: "(string \<Rightarrow> int option) \<Rightarrow> ts_cell list \<Rightarrow> int list option" where
  "to_datetime parse [] = Some []"
| "to_datetime parse (c # cs) =
     (case to_datetime_cell parse c of
        None \<Rightarrow> None
      | Some n \<Rightarrow> (case to_datetime parse cs of None \<Rightarrow> None | Some ns \<Rightarrow> Some (n # ns)))"

text \<open>\<^verbatim>\<open>transactions['timestamp'] = column\<close>: the assignment replaces the column.\<close>

definition set_timestamp_column :: "dataframe \<Rightarrow> int list \<Rightarrow> dataframe" where
  "set_timestamp_column transactions stamps =
     map (\<lambda>(t, n). t\<lparr>timestamp := Stamp n\<rparr>) (zip transactions stamps)"

text \<open>\<^verbatim>\<open>Timedelta.total_seconds()\<close> of a difference of two Timestamps.\<close>

definition total_seconds :: "int \<Rightarrow> rat" where
  "total_seconds d = of_int d / 1000000000"

text \<open>
  The method assigns to a column of the frame it is given, so it returns, next to the
  metrics, the frame as the call leaves it. When the parser raises, the assignment has
  not happened.
\<close>

definition calculate_velocity ::
  "(string \<Rightarrow> int option) \<Rightarrow> dataframe \<Rightarrow> error + velocity_metrics \<times> dataframe" where
  "calculate_velocity parse transactions =
     (if length transactions = 0
      then Inr (\<lparr>hourly_avg = 0, daily_avg = 0\<rparr>, transactions)
      else
        (case to_datetime parse (map timestamp transactions) of
           None \<Rightarrow> Inl ParseError
         | Some stamps \<Rightarrow>
             (let transactions' = set_timestamp_column transactions stamps;
                  time_range = Max (set stamps) - Min (set stamps);
                  hours = total_seconds time_range / 3600
              in Inr (\<lparr>hourly_avg = of_nat (length transactions') / max hours 1,
                        daily_avg = of_nat (length transactions') / max (hours / 24) 1\<rparr>,
                      transactions'))))"

subsection \<open>Counterparties (\<^verbatim>\<open>get_top_counterparties\<close>, \<^verbatim>\<open>analyze_counterparties\<close>)\<close>

text \<open>
  The dictionary \<^verbatim>\<open>counterparty_volumes\<close> keeps its keys in insertion order, which
  \<^verbatim>\<open>items()\<close> then follows: an association list updated in place.
\<close>

definition counterparty_of :: "string \<Rightarrow> transaction \<Rightarrow> string" where
  "counterparty_of addr tx =
     (if from_address tx = addr then to_address tx else from_address tx)"

definition dict_get :: "('k \<times> 'v) list \<Rightarrow> 'k \<Rightarrow> 'v \<Rightarrow> 'v" where
  "dict_get d k dflt = (case map_of d k of None \<Rightarrow> dflt | Some v \<Rightarrow> v)"

fun accumulate_volumes ::
  "string \<Rightarrow> transaction list \<Rightarrow> (string \<times> rat) list \<Rightarrow> (string \<times> rat) list" where
  "accumulate_volumes addr [] d = d"
| "accumulate_volumes addr (tx # rest) d =
     (let counterparty = counterparty_of addr tx
      in accumulate_volumes addr rest
           (AList.update counterparty (dict_get d counterparty 0 + amount tx) d))"

text \<open>The dictionary when the loop over the rows has ended.\<close>

definition counterparty_volumes :: "string \<Rightarrow> dataframe \<Rightarrow> (string \<times> rat) list" where
  "counterparty_volumes addr transactions = accumulate_volumes addr transactions []"

definition get_top_counterparties ::
  "string \<Rightarrow> dataframe \<Rightarrow> int \<Rightarrow> counterparty_volume list" where
  "get_top_counterparties addr transactions top_n =
     slice_to top_n
       (sorted_reverse volume
          (map (\<lambda>(k, v). \<lparr>counterparty_volume.address = k, volume = v\<rparr>)
             (counterparty_volumes addr transactions)))"

text \<open>The two arrays \<^verbatim>\<open>sent_to\<close> and \<^verbatim>\<open>received_from\<close> of \<^verbatim>\<open>analyze_counterparties\<close>.\<close>

definition sent_to :: "string \<Rightarrow> dataframe \<Rightarrow> string list" where
  "sent_to addr transactions =
     unique (map to_address
       (mask_select transactions (col_eq (map from_address transactions) addr)))"

definition received_from :: "string \<Rightarrow> dataframe \<Rightarrow> string list" where
  "received_from addr transactions =
     unique (map from_address
       (mask_select transactions (col_eq (map to_address transactions) addr)))"

text \<open>\<^verbatim>\<open>get_top_counterparties\<close> is called with its default \<^verbatim>\<open>top_n = 5\<close>.\<close>

definition analyze_counterparties :: "string \<Rightarrow> dataframe \<Rightarrow> counterparty_analysis" where
  "analyze_counterparties addr transactions =
     \<lparr>unique_counterparties =
        card (set (sent_to addr transactions) \<union> set (received_from addr transactions)),
      top_counterparties = get_top_counterparties addr transactions 5\<rparr>"

subsection \<open>The orchestrator (\<^verbatim>\<open>analyze_wallet\<close>)\<close>

text \<open>
  Frames are objects: the caller's frame and the selection \<^verbatim>\<open>wallet_txs\<close> are two of
  them, and \<^verbatim>\<open>calculate_velocity\<close> writes to the one it is handed. The store lists the
  frames alive, a reference being a position in it. Selecting rows by a Boolean mask
  builds a new frame (pandas copies the selected rows), so \<^verbatim>\<open>wallet_txs\<close> is allocated
  at the end of the store. The entries of the result are computed in the order the
  dictionary display lists them.
\<close>

type_synonym store = "dataframe list"

definition analyze_wallet ::
  "risk_indicators_cfg \<Rightarrow> (string \<Rightarrow> int option) \<Rightarrow> string \<Rightarrow> nat \<Rightarrow> store
     \<Rightarrow> (error + wallet_analysis) \<times> store" where
  "analyze_wallet self parse addr transactions s =
     (let w = length s;
          s1 = s @ [wallet_txs addr (s ! transactions)];
          n = length (s1 ! w);
          vol = sum_list (map amount (s1 ! w));
          risks = check_risk_indicators self (s1 ! w)
      in case calculate_velocity parse (s1 ! w) of
           Inl e \<Rightarrow> (Inl e, s1)
         | Inr (vel, frame') \<Rightarrow>
             (let s2 = s1[w := frame']
              in (Inr \<lparr>address = addr,
                        total_transactions = n,
                        total_volume = vol,
                        risk_indicators = risks,
                        transaction_velocity = vel,
                        counterparties = analyze_counterparties addr (s2 ! w)\<rparr>,
                  s2)))"

subsection \<open>Example data\<close>

text \<open>
  A parser that reads the two instants of the specification's example scenario, as
  nanoseconds since the epoch (UTC), and nothing else.
\<close>

definition example_parse :: "string \<Rightarrow> int option" where
  "example_parse s =
     (if s = ''2024-01-01T10:00:00'' then Some 1704103200000000000
      else if s = ''2024-01-01T11:00:00'' then Some 1704106800000000000
      else None)"


text \<open>A row whose timestamp cell is already a Timestamp, \<open>secs\<close> seconds after the epoch.\<close>

definition stamped_tx :: "int \<Rightarrow> string \<Rightarrow> string \<Rightarrow> rat \<Rightarrow> transaction" where
  "stamped_tx secs sender recipient x =
     \<lparr>timestamp = Stamp (secs * 1000000000), from_address = sender,
      to_address = recipient, amount = x, transaction_hash = ''0xabc...''\<rparr>"

text \<open>A small ledger: four rows involve \<open>A\<close>, one of them a transfer to itself.\<close>

definition example_ledger :: dataframe where
  "example_ledger =
     [stamped_tx 0 ''A'' ''B'' (3 / 2), stamped_tx 60 ''B'' ''A'' 2, stamped_tx 120 ''C'' ''D'' 7,
      stamped_tx 180 ''A'' ''C'' 9, stamped_tx 240 ''A'' ''A'' 4]"

section \<open>Properties\<close>

subsection \<open>Frame primitives\<close>

lemma mask_select_map: "mask_select rows (map P rows) = filter P rows"
  by (induction rows) (simp_all add: mask_select_def)

lemma mask_select_col_eq:
  "mask_select rows (col_eq (map f rows) v) = filter (\<lambda>t. f t = v) rows"
proof -
  have "col_eq (map f rows) v = map (\<lambda>t. f t = v) rows"
    by (simp add: col_eq_def)
  then show ?thesis
    by (simp add: mask_select_map)
qed

lemma mask_or_map: "mask_or (map P rows) (map Q rows) = map (\<lambda>t. P t \<or> Q t) rows"
  by (induction rows) (simp_all add: mask_or_def)

lemma wallet_txs_filter:
  "wallet_txs addr transactions =
     filter (\<lambda>t. from_address t = addr \<or> to_address t = addr) transactions"
proof -
  have "mask_or (col_eq (map from_address transactions) addr)
                (col_eq (map to_address transactions) addr)
        = map (\<lambda>t. from_address t = addr \<or> to_address t = addr) transactions"
    using mask_or_map [of "\<lambda>t. from_address t = addr" transactions "\<lambda>t. to_address t = addr"]
    by (simp add: col_eq_def comp_def)
  then show ?thesis
    by (simp add: wallet_txs_def mask_select_map)
qed

subsection \<open>Address filtering\<close>


subsection \<open>Risk rules\<close>

lemma check_mixers_eq:
  "check_mixers ms tv risks
     = risks @ map (\<lambda>m. ''Interaction with mixing service: '' @ m)
                (filter (\<lambda>m. m \<in> set tv) ms)"
  by (induction ms arbitrary: risks) simp_all

text \<open>The list of findings is the three rules' findings, one rule after the other.\<close>

lemma check_risk_indicators_parts:
  "check_risk_indicators self txs =
     map (\<lambda>m. ''Interaction with mixing service: '' @ m)
       (filter (\<lambda>m. m \<in> to_address ` set txs) (mixing_service self))
     @ (if \<exists>t \<in> set txs. 9900 < amount t \<and> amount t < 10000
        then [''Potential structuring detected''] else [])
     @ (if round_amounts (suspicious_patterns self) \<and> (\<exists>t \<in> set txs. is_integer (amount t))
        then [''Multiple round-number transactions''] else [])"
  unfolding check_risk_indicators_def Let_def check_mixers_eq list_ex_iff
  by auto










subsection \<open>Velocity\<close>

lemma to_datetime_length:
  "to_datetime parse cs = Some ns \<Longrightarrow> length ns = length cs"
  by (induction cs arbitrary: ns) (auto split: option.splits)

lemma length_set_timestamp_column:
  "length stamps = length txs \<Longrightarrow> length (set_timestamp_column txs stamps) = length txs"
  by (simp add: set_timestamp_column_def)

lemma calculate_velocity_nonempty:
  assumes "txs \<noteq> []" and "to_datetime parse (map timestamp txs) = Some stamps"
  shows "calculate_velocity parse txs =
     Inr (\<lparr>hourly_avg = of_nat (length txs)
              / max (total_seconds (Max (set stamps) - Min (set stamps)) / 3600) 1,
           daily_avg = of_nat (length txs)
              / max (total_seconds (Max (set stamps) - Min (set stamps)) / 3600 / 24) 1\<rparr>,
          set_timestamp_column txs stamps)"
proof -
  have "length stamps = length txs"
    using to_datetime_length [OF assms(2)] by simp
  then show ?thesis
    using assms by (simp add: calculate_velocity_def Let_def length_set_timestamp_column)
qed

lemma span_nonneg:
  assumes "stamps \<noteq> []"
  shows "0 \<le> total_seconds (Max (set stamps) - Min (set stamps)) / 3600"
proof -
  have "Min (set stamps) \<le> Max (set stamps)"
    using assms by (simp add: Min_le_iff)
  then show ?thesis
    by (simp add: total_seconds_def)
qed

lemma velocity_order:
  fixes h :: rat and n :: nat
  assumes "0 \<le> h"
  shows "of_nat n / max h 1 \<le> of_nat n / max (h / 24) 1"
    and "of_nat n / max h 1 \<le> of_nat n"
proof -
  have le: "max (h / 24) 1 \<le> max h 1"
    using assms by (simp add: max_def)
  have pos: "0 < max (h / 24) 1"
    by (simp add: max_def)
  show "of_nat n / max h 1 \<le> of_nat n / max (h / 24) 1"
    using le pos by (simp add: frac_le)
  have "of_nat n / max h 1 \<le> of_nat n / (1::rat)"
    by (rule divide_left_mono) (simp_all add: max_def)
  then show "of_nat n / max h 1 \<le> of_nat n"
    by simp
qed

lemma burst_divisors:
  fixes d :: int
  assumes "0 \<le> d" and "d < 60000000000"
  shows "max (total_seconds d / 3600) 1 = 1"
    and "max (total_seconds d / 3600 / 24) 1 = 1"
  using assms by (simp_all add: total_seconds_def max_def)

text \<open>
  Claim C3. On a frame without rows the velocity is \<open>{hourly_avg: 0, daily_avg: 0}\<close>. On
  a frame with rows whose timestamps can all be read, with \<open>h\<close> the hours between the
  latest and the earliest of them, the hourly average is the row count over \<open>max h 1\<close>
  and the daily average the row count over \<open>max (h / 24) 1\<close>. Ten rows whose timestamps
  lie less than sixty seconds apart give an hourly average of 10 and a daily average of at
  most 10.
\<close>

theorem C3_velocity:
  "calculate_velocity parse [] = Inr (\<lparr>hourly_avg = 0, daily_avg = 0\<rparr>, [])
   \<and> (S \<noteq> [] \<and> to_datetime parse (map timestamp S) = Some stamps \<longrightarrow>
        (let h = total_seconds (Max (set stamps) - Min (set stamps)) / 3600
         in calculate_velocity parse S =
              Inr (\<lparr>hourly_avg = of_nat (length S) / max h 1,
                    daily_avg = of_nat (length S) / max (h / 24) 1\<rparr>,
                   set_timestamp_column S stamps)))
   \<and> (length S = 10 \<and> to_datetime parse (map timestamp S) = Some stamps
        \<and> Max (set stamps) - Min (set stamps) < 60 * 1000000000 \<longrightarrow>
        (\<exists>v S'. calculate_velocity parse S = Inr (v, S')
                 \<and> hourly_avg v = 10 \<and> daily_avg v \<le> 10))"
proof -
  have empty: "calculate_velocity parse [] = Inr (\<lparr>hourly_avg = 0, daily_avg = 0\<rparr>, [])"
    by (simp add: calculate_velocity_def)
  have general: "let h = total_seconds (Max (set stamps) - Min (set stamps)) / 3600
         in calculate_velocity parse S =
              Inr (\<lparr>hourly_avg = of_nat (length S) / max h 1,
                    daily_avg = of_nat (length S) / max (h / 24) 1\<rparr>,
                   set_timestamp_column S stamps)"
    if "S \<noteq> []" and "to_datetime parse (map timestamp S) = Some stamps"
    using calculate_velocity_nonempty [OF that] by (simp add: Let_def)
  have burst: "\<exists>v S'. calculate_velocity parse S = Inr (v, S')
                 \<and> hourly_avg v = 10 \<and> daily_avg v \<le> 10"
    if len: "length S = 10" and td: "to_datetime parse (map timestamp S) = Some stamps"
      and span: "Max (set stamps) - Min (set stamps) < 60 * 1000000000"
  proof -
    have ne: "S \<noteq> []"
      using len by auto
    have "length stamps = length S"
      using to_datetime_length [OF td] by simp
    then have "stamps \<noteq> []"
      using ne by auto
    then have "Min (set stamps) \<le> Max (set stamps)"
      by (simp add: Min_le_iff)
    then have d: "0 \<le> Max (set stamps) - Min (set stamps)"
      by simp
    have d': "Max (set stamps) - Min (set stamps) < 60000000000"
      using span by simp
    show ?thesis
      unfolding calculate_velocity_nonempty [OF ne td] burst_divisors [OF d d']
      using len by simp
  qed
  show ?thesis
    using empty general burst by blast
qed

theorem C3_velocity_witness:
  "calculate_velocity example_parse
      (map (\<lambda>n. stamped_tx n ''A'' ''B'' 1) [0, 6, 12, 18, 24, 30, 36, 42, 48, 59])
   = Inr (\<lparr>hourly_avg = 10, daily_avg = 10\<rparr>,
          map (\<lambda>n. stamped_tx n ''A'' ''B'' 1) [0, 6, 12, 18, 24, 30, 36, 42, 48, 59])
  \<and> calculate_velocity example_parse [stamped_tx 0 ''A'' ''B'' 1, stamped_tx 172800 ''A'' ''B'' 1]
    =  Inr (\<lparr>hourly_avg = 1 / 24, daily_avg = 1\<rparr>,
         [stamped_tx 0 ''A'' ''B'' 1, stamped_tx 172800 ''A'' ''B'' 1])"
  using C3_velocity [of example_parse
      "map (\<lambda>n. stamped_tx n ''A'' ''B'' 1) [0, 6, 12, 18, 24, 30, 36, 42, 48, 59]"
      "map (\<lambda>n. n * 1000000000) [0, 6, 12, 18, 24, 30, 36, 42, 48, 59]"]
   C3_velocity [of example_parse "[stamped_tx 0 ''A'' ''B'' 1, stamped_tx 172800 ''A'' ''B'' 1]"
       "[0, 172800000000000]"]
  by (simp add: stamped_tx_def set_timestamp_column_def total_seconds_def)

text \<open>
  Claim C10. On a frame with rows whose timestamps can all be read, the velocity is
  returned, its daily average is at least its hourly average, and its hourly average is
  at most the number of rows.
\<close>

theorem C10_velocity_order:
  assumes "S \<noteq> []" and "to_datetime parse (map timestamp S) = Some stamps"
  shows "\<exists>v S'. calculate_velocity parse S = Inr (v, S')
           \<and> hourly_avg v \<le> daily_avg v \<and> hourly_avg v \<le> of_nat (length S)"
proof -
  have "length stamps = length S"
    using to_datetime_length [OF assms(2)] by simp
  then have "stamps \<noteq> []"
    using assms(1) by auto
  then have h: "0 \<le> total_seconds (Max (set stamps) - Min (set stamps)) / 3600"
    by (rule span_nonneg)
  show ?thesis
    unfolding calculate_velocity_nonempty [OF assms]
    using velocity_order [OF h, of "length S"] by simp
qed

theorem C10_velocity_order_witness:
  "\<exists>v S'. calculate_velocity example_parse
             [stamped_tx 0 ''A'' ''B'' 1, stamped_tx 3600 ''B'' ''A'' 2, stamped_tx 172800 ''A'' ''B'' 1]
           = Inr (v, S')
       \<and> hourly_avg v \<le> daily_avg v \<and> hourly_avg v \<le> of_nat (length
             [stamped_tx 0 ''A'' ''B'' 1, stamped_tx 3600 ''B'' ''A'' 2, stamped_tx 172800 ''A'' ''B'' 1])"
proof -
  have ne: "[stamped_tx 0 ''A'' ''B'' 1, stamped_tx 3600 ''B'' ''A'' 2, stamped_tx 172800 ''A'' ''B'' 1] \<noteq> []"
    by simp
  have td: "to_datetime example_parse (map timestamp
      [stamped_tx 0 ''A'' ''B'' 1, stamped_tx 3600 ''B'' ''A'' 2, stamped_tx 172800 ''A'' ''B'' 1])
      = Some [0, 3600000000000, 172800000000000]"
    by (simp add: stamped_tx_def)
  show ?thesis
    by (rule C10_velocity_order [OF ne td])
qed

subsection \<open>Counterparties\<close>

lemma set_unique: "set (unique xs) = set xs"
  by (simp add: unique_def)

lemma set_sent_to: "set (sent_to a S) = to_address ` {t \<in> set S. from_address t = a}"
  by (auto simp add: sent_to_def set_unique mask_select_col_eq)

lemma set_received_from: "set (received_from a S) = from_address ` {t \<in> set S. to_address t = a}"
  by (auto simp add: received_from_def set_unique mask_select_col_eq)

lemma counterparty_union:
  "set (sent_to a S) \<union> set (received_from a S)
     = counterparty_of a ` {t \<in> set S. from_address t = a \<or> to_address t = a}"
  unfolding set_sent_to set_received_from
  by (auto simp add: counterparty_of_def image_iff) 

lemma dict_get_update:
  "dict_get (AList.update c v d) k dflt = (if k = c then v else dict_get d k dflt)"
  by (simp add: dict_get_def update_conv')

lemma map_of_accumulate_volumes:
  "map_of (accumulate_volumes a txs d) k =
     (if k \<in> counterparty_of a ` set txs \<or> k \<in> fst ` set d
      then Some (dict_get d k 0 + sum_list (map amount (filter (\<lambda>t. counterparty_of a t = k) txs)))
      else None)"
proof (induction txs arbitrary: d)
  case Nil
  show ?case
    by (auto simp add: dict_get_def map_of_eq_None_iff split: option.splits)
next
  case (Cons tx rest)
  show ?case
    by (simp add: Let_def Cons.IH dict_get_update dom_update)
qed

lemma keys_accumulate_volumes:
  "set (map fst (accumulate_volumes a txs d)) = fst ` set d \<union> counterparty_of a ` set txs"
  by (induction txs arbitrary: d) (auto simp add: Let_def dom_update)

lemma distinct_accumulate_volumes:
  "distinct (map fst d) \<Longrightarrow> distinct (map fst (accumulate_volumes a txs d))"
  by (induction txs arbitrary: d) (simp_all add: Let_def distinct_update)

lemma length_counterparty_volumes:
  "length (counterparty_volumes a S) = card (counterparty_of a ` set S)"
proof -
  have "distinct (map fst (counterparty_volumes a S))"
    unfolding counterparty_volumes_def by (rule distinct_accumulate_volumes) simp
  then have "card (set (map fst (counterparty_volumes a S))) = length (map fst (counterparty_volumes a S))"
    by (rule distinct_card)
  then show ?thesis
    unfolding keys_accumulate_volumes counterparty_volumes_def by simp
qed

lemma sorted_sorted_reverse: "sorted_wrt (\<ge>) (map key (sorted_reverse key xs))"
proof -
  have "sorted (map key (sort_key key (rev xs)))"
    by simp
  then have "sorted_wrt (\<ge>) (rev (map key (sort_key key (rev xs))))"
    by (simp add: sorted_wrt_rev)
  then show ?thesis
    by (simp add: sorted_reverse_def rev_map)
qed

lemma sorted_wrt_take': "sorted_wrt R xs \<Longrightarrow> sorted_wrt R (take n xs)"
  by (induction xs arbitrary: n) (auto simp add: take_Cons' dest: in_set_takeD) 

lemma sorted_slice_to:
  "sorted_wrt R (map key xs) \<Longrightarrow> sorted_wrt R (map key (slice_to n xs))"
  by (simp add: slice_to_def take_map [symmetric] sorted_wrt_take')


lemma length_get_top_counterparties:
  "0 \<le> n \<Longrightarrow> int (length (get_top_counterparties a S n))
      = min n (int (card (counterparty_of a ` set S)))"
  by (simp add: get_top_counterparties_def slice_to_def sorted_reverse_def
        length_counterparty_volumes)

lemma wallet_txs_involved:
  "{t \<in> set (wallet_txs a T). from_address t = a \<or> to_address t = a} = set (wallet_txs a T)"
  by (auto simp add: wallet_txs_filter)

text \<open>
  Claim C4. For the rows \<open>S\<close> selected for an address \<open>a\<close>: the count of unique
  counterparties is the size of the union of the recipients of the rows \<open>a\<close> sent and the
  senders of the rows \<open>a\<close> received, and is at most the number of rows of \<open>S\<close>; the top
  counterparties are in non-increasing order of volume and there are at most
  \<open>min 5 unique_counterparties\<close> of them, 5 being the default \<open>top_n\<close> the analysis
  uses; for any other non-negative \<open>top_n\<close> the list is ordered in the same way and has at
  most \<open>min top_n unique_counterparties\<close> entries.
\<close>

theorem C4_counterparties:
  "(let S = wallet_txs a T; r = analyze_counterparties a S
    in unique_counterparties r
         = card (to_address ` {t \<in> set S. from_address t = a}
                   \<union> from_address ` {t \<in> set S. to_address t = a})
       \<and> unique_counterparties r \<le> length S
       \<and> sorted_wrt (\<ge>) (map volume (top_counterparties r))
       \<and> length (top_counterparties r) \<le> min 5 (unique_counterparties r)
       \<and> (0 \<le> top_n \<longrightarrow>
            sorted_wrt (\<ge>) (map volume (get_top_counterparties a S top_n))
            \<and> int (length (get_top_counterparties a S top_n))
                \<le> min top_n (int (unique_counterparties r))))"
proof -
  define S where "S = wallet_txs a T"
  define r where "r = analyze_counterparties a S"
  have u: "unique_counterparties r = card (set (sent_to a S) \<union> set (received_from a S))"
    by (simp add: r_def analyze_counterparties_def)
  have top: "top_counterparties r = get_top_counterparties a S 5"
    by (simp add: r_def analyze_counterparties_def)
  have cp: "set (sent_to a S) \<union> set (received_from a S) = counterparty_of a ` set S"
    unfolding counterparty_union S_def wallet_txs_involved ..
  have 1: "unique_counterparties r
         = card (to_address ` {t \<in> set S. from_address t = a}
                   \<union> from_address ` {t \<in> set S. to_address t = a})"
    unfolding u set_sent_to set_received_from ..
  have "card (counterparty_of a ` set S) \<le> card (set S)"
    by (rule card_image_le) simp
  also have "\<dots> \<le> length S"
    by (rule card_length)
  finally have 2: "unique_counterparties r \<le> length S"
    unfolding u cp .
  have sorted: "sorted_wrt (\<ge>) (map volume (get_top_counterparties a S n))" for n
    unfolding get_top_counterparties_def
    by (rule sorted_slice_to) (rule sorted_sorted_reverse)
  have len: "int (length (get_top_counterparties a S n)) = min n (int (unique_counterparties r))"
    if "0 \<le> n" for n
    unfolding u cp using that by (rule length_get_top_counterparties)
  have 4: "length (top_counterparties r) \<le> min 5 (unique_counterparties r)"
    unfolding top using len [of 5] by linarith
  have 5: "int (length (get_top_counterparties a S top_n)) \<le> min top_n (int (unique_counterparties r))"
    if "0 \<le> top_n"
    using len [OF that] by simp
  show ?thesis
    unfolding Let_def S_def [symmetric] r_def [symmetric]
    using 1 2 sorted [of 5] sorted [of top_n] 4 5 by (simp add: top)
qed

theorem C4_counterparties_witness:
  "(let S = wallet_txs ''A'' example_ledger; r = analyze_counterparties ''A'' S
    in unique_counterparties r
         = card (to_address ` {t \<in> set S. from_address t = ''A''}
                   \<union> from_address ` {t \<in> set S. to_address t = ''A''})
       \<and> unique_counterparties r \<le> length S
       \<and> sorted_wrt (\<ge>) (map volume (top_counterparties r))
       \<and> length (top_counterparties r) \<le> min 5 (unique_counterparties r)
       \<and> sorted_wrt (\<ge>) (map volume (get_top_counterparties ''A'' S 1))
       \<and> int (length (get_top_counterparties ''A'' S 1))
            \<le> min 1 (int (unique_counterparties r))
       \<and> unique_counterparties r = 3 \<and> length S = 4
       \<and> map volume (top_counterparties r) = [9, 4, 7 / 2]
       \<and> map counterparty_volume.address (get_top_counterparties ''A'' S 1) = [''C''])"
proof -
  have S: "wallet_txs ''A'' example_ledger =
      [stamped_tx 0 ''A'' ''B'' (3 / 2), stamped_tx 60 ''B'' ''A'' 2,
       stamped_tx 180 ''A'' ''C'' 9, stamped_tx 240 ''A'' ''A'' 4]"
    by (simp add: wallet_txs_filter example_ledger_def stamped_tx_def)
  have "set (sent_to ''A'' (wallet_txs ''A'' example_ledger))
          \<union> set (received_from ''A'' (wallet_txs ''A'' example_ledger)) = {''A'', ''B'', ''C''}"
    unfolding S
    by (auto simp add: sent_to_def received_from_def mask_select_def col_eq_def unique_def
          stamped_tx_def)
  then have
    "unique_counterparties (analyze_counterparties ''A'' (wallet_txs ''A'' example_ledger)) = 3"
    by (simp add: analyze_counterparties_def)
  moreover have "length (wallet_txs ''A'' example_ledger) = 4"
    unfolding S by simp
  moreover have
    "map volume (top_counterparties (analyze_counterparties ''A'' (wallet_txs ''A'' example_ledger)))
       = [9, 4, 7 / 2]"
    unfolding S
    by (simp add: analyze_counterparties_def get_top_counterparties_def
          counterparty_volumes_def stamped_tx_def counterparty_of_def dict_get_def
          sorted_reverse_def slice_to_def)
  moreover have
    "map counterparty_volume.address
       (get_top_counterparties ''A'' (wallet_txs ''A'' example_ledger) 1) = [''C'']"
    unfolding S
    by (simp add: get_top_counterparties_def
          counterparty_volumes_def stamped_tx_def counterparty_of_def dict_get_def
          sorted_reverse_def slice_to_def)
  ultimately show ?thesis
    using C4_counterparties [of "''A''" example_ledger 1]
    unfolding Let_def by simp
qed

lemma set_sorted_reverse: "set (sorted_reverse key xs) = set xs"
  by (simp add: sorted_reverse_def)

text \<open>
  Claim C9. When a row of the subset has the analysed address \<open>a\<close> as sender and as
  recipient, \<open>a\<close> is in the set of counterparties that is counted, the row's counterparty
  is \<open>a\<close>, and the dictionary of volumes has the key \<open>a\<close>, its value being the sum of the
  amounts of the rows whose counterparty is \<open>a\<close> (this row among them). When the
  dictionary has at most five keys, that entry is in the top counterparties.
\<close>

theorem C9_self_transfer:
  assumes "tx \<in> set S" and "from_address tx = a" and "to_address tx = a"
  shows "a \<in> set (sent_to a S) \<union> set (received_from a S)
    \<and> counterparty_of a tx = a
    \<and> tx \<in> set (filter (\<lambda>t. counterparty_of a t = a) S)
    \<and> map_of (counterparty_volumes a S) a
          = Some (sum_list (map amount (filter (\<lambda>t. counterparty_of a t = a) S)))
    \<and> (length (counterparty_volumes a S) \<le> 5 \<longrightarrow>
          \<lparr>counterparty_volume.address = a,
            volume = sum_list (map amount (filter (\<lambda>t. counterparty_of a t = a) S))\<rparr>
            \<in> set (top_counterparties (analyze_counterparties a S)))"
proof -
  let ?v = "sum_list (map amount (filter (\<lambda>t. counterparty_of a t = a) S))"
  have cp: "counterparty_of a tx = a"
    using assms(2,3) by (simp add: counterparty_of_def)
  have "to_address tx \<in> set (sent_to a S)"
    unfolding set_sent_to using assms(1,2) by blast
  then have 1: "a \<in> set (sent_to a S) \<union> set (received_from a S)"
    using assms(3) by simp
  have 3: "tx \<in> set (filter (\<lambda>t. counterparty_of a t = a) S)"
    using assms(1) cp by simp
  have "a \<in> counterparty_of a ` set S"
    using assms(1) cp by force
  then have 4: "map_of (counterparty_volumes a S) a = Some ?v"
    by (simp add: counterparty_volumes_def map_of_accumulate_volumes dict_get_def)
  then have mem: "(a, ?v) \<in> set (counterparty_volumes a S)"
    by (rule map_of_SomeD)
  have 5: "\<lparr>counterparty_volume.address = a, volume = ?v\<rparr>
            \<in> set (top_counterparties (analyze_counterparties a S))"
    if "length (counterparty_volumes a S) \<le> 5"
  proof -
    have "top_counterparties (analyze_counterparties a S)
        = sorted_reverse volume
            (map (\<lambda>(k, v). \<lparr>counterparty_volume.address = k, volume = v\<rparr>)
               (counterparty_volumes a S))"
      using that
      by (simp add: analyze_counterparties_def get_top_counterparties_def slice_to_def
            sorted_reverse_def)
    then show ?thesis
      using mem by (force simp add: set_sorted_reverse)
  qed
  show ?thesis
    using 1 cp 3 4 5 by blast
qed

theorem C9_self_transfer_witness:
  "''A'' \<in> set (sent_to ''A'' [stamped_tx 0 ''A'' ''A'' 4, stamped_tx 60 ''A'' ''B'' 1])
            \<union> set (received_from ''A'' [stamped_tx 0 ''A'' ''A'' 4, stamped_tx 60 ''A'' ''B'' 1])
   \<and> map_of (counterparty_volumes ''A'' [stamped_tx 0 ''A'' ''A'' 4, stamped_tx 60 ''A'' ''B'' 1])
        ''A'' = Some 4
   \<and> \<lparr>counterparty_volume.address = ''A'', volume = 4\<rparr>
        \<in> set (top_counterparties (analyze_counterparties ''A''
                  [stamped_tx 0 ''A'' ''A'' 4, stamped_tx 60 ''A'' ''B'' 1]))
   \<and> analyze_counterparties ''A'' [stamped_tx 0 ''A'' ''A'' 4, stamped_tx 60 ''A'' ''B'' 1]
       = \<lparr>unique_counterparties = 2,
          top_counterparties = [\<lparr>counterparty_volume.address = ''A'', volume = 4\<rparr>,
                                \<lparr>counterparty_volume.address = ''B'', volume = 1\<rparr>]\<rparr>"
proof -
  let ?S = "[stamped_tx 0 ''A'' ''A'' 4, stamped_tx 60 ''A'' ''B'' 1]"
  have mem: "stamped_tx 0 ''A'' ''A'' 4 \<in> set ?S"
    by simp
  have sender: "from_address (stamped_tx 0 ''A'' ''A'' 4) = ''A''"
    and recipient: "to_address (stamped_tx 0 ''A'' ''A'' 4) = ''A''"
    by (simp_all add: stamped_tx_def)
  have len: "length (counterparty_volumes ''A'' ?S) \<le> 5"
    by (simp add: counterparty_volumes_def counterparty_of_def dict_get_def stamped_tx_def)
  have sum: "sum_list (map amount (filter (\<lambda>t. counterparty_of ''A'' t = ''A'') ?S)) = 4"
    by (simp add: counterparty_of_def stamped_tx_def)
  have "set (sent_to ''A'' ?S) \<union> set (received_from ''A'' ?S) = {''A'', ''B''}"
    by (auto simp add: sent_to_def received_from_def mask_select_def col_eq_def unique_def
          stamped_tx_def)
  then have "unique_counterparties (analyze_counterparties ''A'' ?S) = 2"
    by (simp add: analyze_counterparties_def)
  moreover have "top_counterparties (analyze_counterparties ''A'' ?S)
       = [\<lparr>counterparty_volume.address = ''A'', volume = 4\<rparr>,
          \<lparr>counterparty_volume.address = ''B'', volume = 1\<rparr>]"
    by (simp add: analyze_counterparties_def get_top_counterparties_def
          counterparty_volumes_def stamped_tx_def counterparty_of_def dict_get_def
          sorted_reverse_def slice_to_def)
  ultimately have val: "analyze_counterparties ''A'' ?S
       = \<lparr>unique_counterparties = 2,
          top_counterparties = [\<lparr>counterparty_volume.address = ''A'', volume = 4\<rparr>,
                                \<lparr>counterparty_volume.address = ''B'', volume = 1\<rparr>]\<rparr>"
    by simp
  show ?thesis
    using C9_self_transfer [OF mem sender recipient] len val unfolding sum by blast
qed

subsection \<open>The orchestrator\<close>













text \<open>
  Claim C2. The example scenario: two rows, \<open>A\<close> to \<open>B\<close> of 1.5 at ten o'clock and \<open>B\<close> to
  \<open>A\<close> of 2.0 at eleven, analysed for \<open>A\<close> with round-amount detection enabled and
  neither \<open>A\<close> nor \<open>B\<close> a configured mixer, the parser reading both timestamps. The
  analysis reports 2 transactions, volume 3.5, one unique counterparty, the ranking
  \<open>[{address: B, volume: 3.5}]\<close> and the single finding
  \<^verbatim>\<open>Multiple round-number transactions\<close>.
\<close>

theorem C2_example_scenario:
  assumes "transactions < length s"
    and "s ! transactions =
          [\<lparr>timestamp = Text ''2024-01-01T10:00:00'', from_address = ''A'', to_address = ''B'',
            amount = 3 / 2, transaction_hash = h1\<rparr>,
           \<lparr>timestamp = Text ''2024-01-01T11:00:00'', from_address = ''B'', to_address = ''A'',
            amount = 2, transaction_hash = h2\<rparr>]"
    and "parse ''2024-01-01T10:00:00'' = Some t1"
    and "parse ''2024-01-01T11:00:00'' = Some t2"
    and "round_amounts (suspicious_patterns self)"
    and "''A'' \<notin> set (mixing_service self)" and "''B'' \<notin> set (mixing_service self)"
  shows "\<exists>r. fst (analyze_wallet self parse ''A'' transactions s) = Inr r
           \<and> total_transactions r = 2
           \<and> total_volume r = 7 / 2
           \<and> unique_counterparties (counterparties r) = 1
           \<and> top_counterparties (counterparties r)
               = [\<lparr>counterparty_volume.address = ''B'', volume = 7 / 2\<rparr>]
           \<and> risk_indicators r = [''Multiple round-number transactions'']"
proof -
  let ?T = "[\<lparr>timestamp = Text ''2024-01-01T10:00:00'', from_address = ''A'', to_address = ''B'',
            amount = 3 / 2, transaction_hash = h1\<rparr>,
           \<lparr>timestamp = Text ''2024-01-01T11:00:00'', from_address = ''B'', to_address = ''A'',
            amount = 2, transaction_hash = h2\<rparr>]"
  have sel: "wallet_txs ''A'' ?T = ?T"
    by (simp add: wallet_txs_filter)
  have td: "to_datetime parse (map timestamp ?T) = Some [t1, t2]"
    using assms(3,4) by simp
  have cv: "\<exists>v. calculate_velocity parse ?T = Inr (v, set_timestamp_column ?T [t1, t2])"
    using calculate_velocity_nonempty [OF _ td] by simp
  have frame: "set_timestamp_column ?T [t1, t2] =
          [\<lparr>timestamp = Stamp t1, from_address = ''A'', to_address = ''B'',
            amount = 3 / 2, transaction_hash = h1\<rparr>,
           \<lparr>timestamp = Stamp t2, from_address = ''B'', to_address = ''A'',
            amount = 2, transaction_hash = h2\<rparr>]"
    by (simp add: set_timestamp_column_def)
  have filt: "filter (\<lambda>m. m = ''B'' \<or> m = ''A'') (mixing_service self) = []"
    using assms(6,7) by (auto simp add: filter_empty_conv)
  have risks: "check_risk_indicators self ?T = [''Multiple round-number transactions'']"
    using assms(5) filt by (simp add: check_risk_indicators_parts is_integer_def)
  have "set (sent_to ''A'' (set_timestamp_column ?T [t1, t2]))
          \<union> set (received_from ''A'' (set_timestamp_column ?T [t1, t2])) = {''B''}"
    unfolding frame
    by (auto simp add: sent_to_def received_from_def mask_select_def col_eq_def unique_def)
  then have u: "unique_counterparties (analyze_counterparties ''A'' (set_timestamp_column ?T [t1, t2])) = 1"
    by (simp add: analyze_counterparties_def)
  have top: "top_counterparties (analyze_counterparties ''A'' (set_timestamp_column ?T [t1, t2]))
       = [\<lparr>counterparty_volume.address = ''B'', volume = 7 / 2\<rparr>]"
    unfolding frame
    by (simp add: analyze_counterparties_def get_top_counterparties_def
          counterparty_volumes_def counterparty_of_def dict_get_def
          sorted_reverse_def slice_to_def)
  obtain v where v: "calculate_velocity parse ?T = Inr (v, set_timestamp_column ?T [t1, t2])"
    using cv by blast
  show ?thesis
    unfolding analyze_wallet_def Let_def assms(2) 
    by (simp add: sel v risks u top)
qed


theorem C2_example_scenario_witness:
  "\<exists>r. fst (analyze_wallet init example_parse ''A'' 0
              [[\<lparr>timestamp = Text ''2024-01-01T10:00:00'', from_address = ''A'',
                 to_address = ''B'', amount = 3 / 2, transaction_hash = ''0xabc...''\<rparr>,
                \<lparr>timestamp = Text ''2024-01-01T11:00:00'', from_address = ''B'',
                 to_address = ''A'', amount = 2, transaction_hash = ''0xdef...''\<rparr>]]) = Inr r
        \<and> total_transactions r = 2
        \<and> total_volume r = 7 / 2
        \<and> unique_counterparties (counterparties r) = 1
        \<and> top_counterparties (counterparties r)
            = [\<lparr>counterparty_volume.address = ''B'', volume = 7 / 2\<rparr>]
        \<and> risk_indicators r = [''Multiple round-number transactions'']"
proof -
  let ?T = "[\<lparr>timestamp = Text ''2024-01-01T10:00:00'', from_address = ''A'',
               to_address = ''B'', amount = 3 / 2, transaction_hash = ''0xabc...''\<rparr>,
             \<lparr>timestamp = Text ''2024-01-01T11:00:00'', from_address = ''B'',
               to_address = ''A'', amount = 2, transaction_hash = ''0xdef...''\<rparr>]"
  have r: "(0::nat) < length [?T]"
    by simp
  have frame: "[?T] ! 0 = ?T"
    by simp
  have t1: "example_parse ''2024-01-01T10:00:00'' = Some 1704103200000000000"
    and t2: "example_parse ''2024-01-01T11:00:00'' = Some 1704106800000000000"
    by (simp_all add: example_parse_def)
  have round: "round_amounts (suspicious_patterns init)"
    and a: "''A'' \<notin> set (mixing_service init)"
    and b: "''B'' \<notin> set (mixing_service init)"
    by (simp_all add: init_def)
  show ?thesis
    by (rule C2_example_scenario [OF r frame t1 t2 round a b])
qed

end
